theory Spec2Isabelle
  imports Complex_Main "HOL-Library.Char_ord" "HOL-Library.List_Lexorder"
begin

section \<open>The training notebook: data loading, model definition, metadata\<close>

text \<open>
  The notebook \<^verbatim>\<open>train_simple_TF2_segmentation_model.ipynb\<close> is a linear script.
  Its own code lists two directories, sorts the file paths, decodes every image and
  every mask, one-hot encodes the masks, defines a three-layer Keras model and a
  metadata tuple, and hands both to the \<^verbatim>\<open>czmodel\<close> package. The operating system
  and the TensorFlow readers are the environment of the script: they are a record of
  functions here, so that every statement holds for every directory content and every
  decoder. A Python exception is a value \<open>Inl e\<close>.
\<close>

subsection \<open>Errors and the environment\<close>

datatype error =
  FileNotFoundError
  | NotFoundError
  | InvalidArgumentError
  | IndexError
  | ValueError

text \<open>
  A decoded raster is indexed \<open>[row][column][channel]\<close>; the values are those of
  an unsigned integer image.
\<close>

type_synonym image = "nat list list list"

text \<open>A one-hot encoded mask: \<open>[row][column][class]\<close> with float entries 0.0 and 1.0.\<close>

type_synonym target = "real list list list"

record 'b env =
  listdir :: "string \<Rightarrow> error + string list"
  isfile :: "string \<Rightarrow> bool"
  read_file :: "string \<Rightarrow> error + 'b"
  decode_image :: "nat \<Rightarrow> 'b \<Rightarrow> error + image"

text \<open>Sequencing of calls that may raise: the first exception is the result.\<close>

definition and_then :: "error + 'a \<Rightarrow> ('a \<Rightarrow> error + 'c) \<Rightarrow> error + 'c" where
  "and_then r f = (case r of Inl e \<Rightarrow> Inl e | Inr x \<Rightarrow> f x)"

text \<open>
  A list comprehension \<^verbatim>\<open>[f(x) for x in xs]\<close> whose body may raise: the elements are
  computed from left to right and the first exception ends the comprehension.
\<close>

fun traverse :: "('a \<Rightarrow> error + 'c) \<Rightarrow> 'a list \<Rightarrow> error + 'c list" where
  "traverse f [] = Inr []"
| "traverse f (x # xs) =
     (case f x of
        Inl e \<Rightarrow> Inl e
      | Inr y \<Rightarrow> (case traverse f xs of Inl e \<Rightarrow> Inl e | Inr ys \<Rightarrow> Inr (y # ys)))"

subsection \<open>Cell 6: parameters\<close>

definition IMAGES_FOLDER :: string where
  "IMAGES_FOLDER = ''data/nuclei_images/''"

definition MASKS_FOLDER :: string where
  "MASKS_FOLDER = ''data/nuclei_masks/''"

definition CHANNELS :: nat where
  "CHANNELS = 1"

subsection \<open>Cell 7: reading pairs of images and label masks\<close>

text \<open>
  \<^verbatim>\<open>os.path.join(a, b)\<close> on POSIX, the path syntax of the notebook's folders: an
  absolute \<open>b\<close> replaces \<open>a\<close>; otherwise \<open>b\<close> is appended, after a separator
  unless \<open>a\<close> is empty or already ends with one.
\<close>

definition join :: "string \<Rightarrow> string \<Rightarrow> string" where
  "join a b =
     (if b \<noteq> [] \<and> hd b = CHR ''/'' then b
      else if a = [] \<or> last a = CHR ''/'' then a @ b
      else a @ ''/'' @ b)"

text \<open>
  The entries of a listing \<open>fs\<close> of directory \<open>d\<close> that are regular files:
  the filter \<^verbatim>\<open>if os.path.isfile(os.path.join(d, f))\<close> of the comprehension.
\<close>

definition regular_files :: "'b env \<Rightarrow> string \<Rightarrow> string list \<Rightarrow> string list" where
  "regular_files E d fs = filter (\<lambda>f. isfile E (join d f)) fs"

text \<open>
  \<^verbatim>\<open>sorted([os.path.join(d, f) for f in os.listdir(d) if os.path.isfile(os.path.join(d, f))])\<close>:
  the paths are compared as strings, character by character.
\<close>

definition sorted_files :: "'b env \<Rightarrow> string \<Rightarrow> error + string list" where
  "sorted_files E d =
     and_then (listdir E d) (\<lambda>fs. Inr (sort (map (join d) (regular_files E d fs))))"

definition sample_images :: "'b env \<Rightarrow> error + string list" where
  "sample_images E = sorted_files E IMAGES_FOLDER"

definition sample_masks :: "'b env \<Rightarrow> error + string list" where
  "sample_masks E = sorted_files E MASKS_FOLDER"

text \<open>\<^verbatim>\<open>tf.image.decode_image(tf.io.read_file(sample_path), channels=CHANNELS).numpy()\<close>\<close>

definition load_image :: "'b env \<Rightarrow> string \<Rightarrow> error + image" where
  "load_image E sample_path =
     and_then (read_file E sample_path) (decode_image E CHANNELS)"

definition images_loaded :: "'b env \<Rightarrow> error + image list" where
  "images_loaded E = and_then (sample_images E) (traverse (load_image E))"

text \<open>
  The slice \<^verbatim>\<open>t[..., k]\<close> of a decoded raster: channel \<open>k\<close> of every pixel; a pixel
  with no such channel is an index error.
\<close>

definition channel :: "nat \<Rightarrow> nat list \<Rightarrow> error + nat" where
  "channel k px = (if k < length px then Inr (px ! k) else Inl IndexError)"

definition index_last :: "nat \<Rightarrow> image \<Rightarrow> error + nat list list" where
  "index_last k t = traverse (traverse (channel k)) t"

text \<open>
  \<^verbatim>\<open>tf.one_hot(i, depth)\<close> with the default on and off values: position \<open>i\<close> holds
  1.0, every other position 0.0, and an index outside \<open>0..depth-1\<close> gives all 0.0.
\<close>

definition one_hot :: "nat \<Rightarrow> nat \<Rightarrow> real list" where
  "one_hot i depth = map (\<lambda>k. if k = i then 1 else 0) [0..<depth]"

text \<open>
  \<^verbatim>\<open>tf.one_hot(tf.image.decode_image(tf.io.read_file(sample_path), channels=1)[...,0], depth=2).numpy()\<close>
\<close>

definition load_mask :: "'b env \<Rightarrow> string \<Rightarrow> error + target" where
  "load_mask E sample_path =
     and_then (and_then (read_file E sample_path) (decode_image E 1))
       (\<lambda>t. and_then (index_last 0 t) (\<lambda>m. Inr (map (map (\<lambda>v. one_hot v 2)) m)))"

definition masks_loaded :: "'b env \<Rightarrow> error + target list" where
  "masks_loaded E = and_then (sample_masks E) (traverse (load_mask E))"

subsection \<open>Cell 10: the Keras model\<close>

datatype activation = Linear | Softmax

text \<open>
  Both convolutions are built with \<^verbatim>\<open>padding='same'\<close> and the default stride 1, the
  only padding the notebook uses: the spatial dimensions are kept.
\<close>

datatype padding = Same

text \<open>
  The two kinds of layer the notebook uses. A shape is \<open>(height, width, channels)\<close>
  without the batch axis; \<open>None\<close> is an undefined spatial dimension. The arguments
  of \<open>Conv2D\<close> are the number of filters, the kernel size, the activation and the
  padding.
\<close>

type_synonym shape = "nat option \<times> nat option \<times> nat"

datatype layer =
  PerImageStandardization shape
  | Conv2D nat nat activation padding

text \<open>
  The output shape of one layer: the standardization keeps the shape, a convolution
  with \<open>f\<close> filters has \<open>f\<close> output channels.
\<close>

fun compute_output_shape :: "layer \<Rightarrow> shape \<Rightarrow> shape" where
  "compute_output_shape (PerImageStandardization _) s = s"
| "compute_output_shape (Conv2D f k a Same) (h, w, c) = (h, w, f)"

text \<open>
  \<^verbatim>\<open>Sequential([...])\<close>: the input shape is the \<^verbatim>\<open>input_shape\<close> argument of the first
  layer, and the layers are applied in order.
\<close>

definition input_shape :: "layer list \<Rightarrow> shape option" where
  "input_shape ls =
     (case ls of PerImageStandardization s # _ \<Rightarrow> Some s | _ \<Rightarrow> None)"

definition output_shape :: "layer list \<Rightarrow> shape option" where
  "output_shape ls = map_option (\<lambda>s. fold compute_output_shape ls s) (input_shape ls)"

definition output_channels :: "layer list \<Rightarrow> nat option" where
  "output_channels ls = map_option (\<lambda>s. snd (snd s)) (output_shape ls)"

definition model :: "layer list" where
  "model =
     [PerImageStandardization (None, None, 1),
      Conv2D 16 3 Linear Same,
      Conv2D 2 1 Softmax Same]"

subsection \<open>Cell 12: fitting\<close>

text \<open>
  \<^verbatim>\<open>model.fit(images_loaded, masks_loaded, ...)\<close> and \<^verbatim>\<open>model.evaluate\<close> take sample
  \<open>i\<close> of the first array with target \<open>i\<close> of the second; arrays of different
  lengths are rejected.
\<close>

definition samples :: "'a list \<Rightarrow> 'c list \<Rightarrow> error + ('a \<times> 'c) list" where
  "samples xs ys = (if length xs = length ys then Inr (zip xs ys) else Inl ValueError)"

definition training_samples :: "'b env \<Rightarrow> error + (image \<times> target) list" where
  "training_samples E =
     and_then (images_loaded E)
       (\<lambda>xs. and_then (masks_loaded E) (\<lambda>ys. samples xs ys))"

subsection \<open>Cell 14: metadata\<close>

record ModelMetadata =
  name :: string
  color_handling :: string
  pixel_type :: string
  classes :: "string list"
  border_size :: nat

definition model_metadata :: ModelMetadata where
  "model_metadata =
     \<lparr> name = ''Simple_Nuclei_SegmentationModel'',
       color_handling = ''ConvertToMonochrome'',
       pixel_type = ''Gray16'',
       classes = [''Background'', ''Nucleus''],
       border_size = 8 \<rparr>"

definition spatial_dims :: "nat \<times> nat" where
  "spatial_dims = (1024, 1024)"

text \<open>
  Cells 16, 18 and 28 pass \<open>model\<close>, \<open>model_metadata\<close> and \<open>spatial_dims\<close> to
  \<^verbatim>\<open>convert_from_model_spec\<close>, \<^verbatim>\<open>add_preprocessing_layers\<close> and
  \<^verbatim>\<open>convert_from_json_spec\<close>. The three functions are imported from the \<^verbatim>\<open>czmodel\<close>
  package and the notebook defines none of them, so the development ends at their
  arguments.
\<close>

subsection \<open>A small directory tree\<close>

text \<open>
  Two images and their two masks, listed in different orders, next to an entry that
  is not a regular file in each directory. Every mask is one row of two pixels.
\<close>

definition example_env :: "string env" where
  "example_env =
     \<lparr> listdir = (\<lambda>d.
         if d = ''data/nuclei_images/'' then Inr [''n2.png'', ''n1.png'', ''old'']
         else if d = ''data/nuclei_masks/'' then Inr [''n1.png'', ''tmp'', ''n2.png'']
         else Inl FileNotFoundError),
       isfile = (\<lambda>p. p \<in> set [''data/nuclei_images/n1.png'', ''data/nuclei_images/n2.png'',
         ''data/nuclei_masks/n1.png'', ''data/nuclei_masks/n2.png'']),
       read_file = (\<lambda>p.
         if p = ''data/nuclei_images/n1.png'' then Inr ''i1''
         else if p = ''data/nuclei_images/n2.png'' then Inr ''i2''
         else if p = ''data/nuclei_masks/n1.png'' then Inr ''m1''
         else if p = ''data/nuclei_masks/n2.png'' then Inr ''m2''
         else Inl NotFoundError),
       decode_image = (\<lambda>c b.
         if c \<noteq> 1 then Inl InvalidArgumentError
         else if b = ''i1'' then Inr [[[10], [200]]]
         else if b = ''i2'' then Inr [[[30], [40]]]
         else if b = ''m1'' then Inr [[[0], [1]]]
         else if b = ''m2'' then Inr [[[1], [1]]]
         else Inl InvalidArgumentError) \<rparr>"

section \<open>Properties\<close>

subsection \<open>Sequencing and comprehensions\<close>

lemma and_then_Inr:
  "and_then r f = Inr y \<longleftrightarrow> (\<exists>x. r = Inr x \<and> f x = Inr y)"
  by (cases r) (simp_all add: and_then_def)

lemma traverse_Inr_length: "traverse f xs = Inr ys \<Longrightarrow> length ys = length xs"
  by (induction xs arbitrary: ys) (auto split: sum.splits)

lemma traverse_Inr_nth:
  "traverse f xs = Inr ys \<Longrightarrow> i < length xs \<Longrightarrow> f (xs ! i) = Inr (ys ! i)"
proof (induction xs arbitrary: ys i)
  case Nil
  then show ?case by simp
next
  case (Cons x xs)
  from Cons.prems(1) obtain y zs where
    fx: "f x = Inr y" and rest: "traverse f xs = Inr zs" and ys: "ys = y # zs"
    by (auto split: sum.splits)
  show ?case
  proof (cases i)
    case 0
    with fx ys show ?thesis by simp
  next
    case (Suc j)
    with Cons.prems(2) have "j < length xs" by simp
    from Cons.IH [OF rest this] Suc ys show ?thesis by simp
  qed
qed

subsection \<open>Sorting paths with a common directory prefix\<close>

lemma append_le_append: "(p @ a \<le> p @ b) = (a \<le> (b :: 'a :: linorder list))"
  by (induction p) simp_all

lemma insort_map_append:
  "insort (p @ x) (map ((@) p) ys) = map ((@) p) (insort x (ys :: 'a :: linorder list list))"
  by (induction ys) (simp_all add: append_le_append)

lemma sort_map_append:
  "sort (map ((@) p) xs) = map ((@) p) (sort (xs :: 'a :: linorder list list))"
  by (induction xs) (simp_all add: insort_map_append)

lemma join_no_slash:
  "CHR ''/'' \<notin> set f \<Longrightarrow> d \<noteq> [] \<Longrightarrow> last d = CHR ''/'' \<Longrightarrow> join d f = d @ f"
  by (cases f) (auto simp: join_def)


lemma sorted_files_Inr:
  "sorted_files E d = Inr xs \<longleftrightarrow>
     (\<exists>fs. listdir E d = Inr fs \<and> xs = sort (map (join d) (regular_files E d fs)))"
  by (auto simp: sorted_files_def and_then_Inr regular_files_def)

lemma sorted_paths_by_name:
  assumes "\<forall>f\<in>set fs. CHR ''/'' \<notin> set f" and "d \<noteq> []" and "last d = CHR ''/''"
  shows "sort (map (join d) (regular_files E d fs)) =
    map ((@) d) (sort (filter (\<lambda>f. isfile E (d @ f)) fs))"
proof -
  have j: "join d f = d @ f" if "f \<in> set fs" for f
    using that assms by (simp add: join_no_slash)
  have r: "regular_files E d fs = filter (\<lambda>f. isfile E (d @ f)) fs"
    unfolding regular_files_def using j by (intro filter_cong) simp_all
  have "map (join d) (regular_files E d fs) = map ((@) d) (regular_files E d fs)"
    using j by (intro map_cong) (simp_all add: regular_files_def)
  then have "sort (map (join d) (regular_files E d fs)) =
      map ((@) d) (sort (regular_files E d fs))"
    by (simp only: sort_map_append)
  then show ?thesis by (simp only: r)
qed

lemma folders_end_with_separator:
  "IMAGES_FOLDER \<noteq> []" "last IMAGES_FOLDER = CHR ''/''"
  "MASKS_FOLDER \<noteq> []" "last MASKS_FOLDER = CHR ''/''"
  by (simp_all add: IMAGES_FOLDER_def MASKS_FOLDER_def)

lemma samples_Inr:
  "samples xs ys = Inr s \<longleftrightarrow> length xs = length ys \<and> s = zip xs ys"
  by (auto simp: samples_def)

subsection \<open>One-hot targets, output channels, class list\<close>

lemma one_hot_2: "one_hot v 2 = [if v = 0 then 1 else 0, if v = 1 then 1 else 0]"
  by (simp add: one_hot_def numeral_2_eq_2 upt_rec)

lemma output_channels_model: "output_channels model = Some 2"
  by (simp add: output_channels_def output_shape_def input_shape_def model_def)

lemma length_classes: "length (classes model_metadata) = 2"
  by (simp add: model_metadata_def)

lemma index_last_Inr:
  assumes "index_last k d = Inr m"
  shows "length m = length d \<and>
    (\<forall>r<length d. length (m ! r) = length (d ! r) \<and>
       (\<forall>c<length (d ! r). k < length (d ! r ! c) \<and> m ! r ! c = d ! r ! c ! k))"
proof -
  from assms have t: "traverse (traverse (channel k)) d = Inr m"
    by (simp add: index_last_def)
  have len: "length m = length d"
    using t by (rule traverse_Inr_length)
  have rows: "length (m ! r) = length (d ! r) \<and>
       (\<forall>c<length (d ! r). k < length (d ! r ! c) \<and> m ! r ! c = d ! r ! c ! k)"
    if r: "r < length d" for r
  proof -
    from traverse_Inr_nth [OF t r]
    have tr: "traverse (channel k) (d ! r) = Inr (m ! r)" .
    have "k < length (d ! r ! c) \<and> m ! r ! c = d ! r ! c ! k" if c: "c < length (d ! r)" for c
      using traverse_Inr_nth [OF tr c] by (auto simp: channel_def split: if_splits)
    with traverse_Inr_length [OF tr] show ?thesis by simp
  qed
  from len rows show ?thesis by blast
qed

lemma load_mask_Inr:
  assumes "load_mask E p = Inr t"
  shows "\<exists>b d. read_file E p = Inr b \<and> decode_image E 1 b = Inr d \<and>
    length t = length d \<and>
    (\<forall>r<length d. length (t ! r) = length (d ! r) \<and>
       (\<forall>c<length (d ! r). d ! r ! c \<noteq> [] \<and> t ! r ! c = one_hot (d ! r ! c ! 0) 2))"
proof -
  from assms obtain b d m where
    b: "read_file E p = Inr b" and d: "decode_image E 1 b = Inr d"
    and m: "index_last 0 d = Inr m" and t: "t = map (map (\<lambda>v. one_hot v 2)) m"
    by (auto simp: load_mask_def and_then_Inr)
  note il = index_last_Inr [OF m]
  have "length t = length d" using il t by simp
  moreover have "length (t ! r) = length (d ! r) \<and>
       (\<forall>c<length (d ! r). d ! r ! c \<noteq> [] \<and> t ! r ! c = one_hot (d ! r ! c ! 0) 2)"
    if r: "r < length d" for r
  proof -
    from il r have rm: "r < length m" and lr: "length (m ! r) = length (d ! r)"
      and px: "\<forall>c<length (d ! r). 0 < length (d ! r ! c) \<and> m ! r ! c = d ! r ! c ! 0"
      by simp_all
    from rm t have tr: "t ! r = map (\<lambda>v. one_hot v 2) (m ! r)" by simp
    show ?thesis using tr lr px by auto
  qed
  ultimately show ?thesis using b d by blast
qed

subsection \<open>The small directory tree, evaluated\<close>

lemma example_reads:
  "read_file example_env ''data/nuclei_images/n1.png'' = Inr ''i1''"
  "read_file example_env ''data/nuclei_images/n2.png'' = Inr ''i2''"
  "read_file example_env ''data/nuclei_masks/n1.png'' = Inr ''m1''"
  "read_file example_env ''data/nuclei_masks/n2.png'' = Inr ''m2''"
  by (simp_all add: example_env_def)

lemma example_decodes:
  "decode_image example_env (Suc 0) ''i1'' = Inr [[[10], [200]]]"
  "decode_image example_env (Suc 0) ''i2'' = Inr [[[30], [40]]]"
  "decode_image example_env (Suc 0) ''m1'' = Inr [[[0], [1]]]"
  "decode_image example_env (Suc 0) ''m2'' = Inr [[[1], [1]]]"
  by (simp_all add: example_env_def)

lemma example_listdir:
  "listdir example_env IMAGES_FOLDER = Inr [''n2.png'', ''n1.png'', ''old'']"
  "listdir example_env MASKS_FOLDER = Inr [''n1.png'', ''tmp'', ''n2.png'']"
  by (simp_all add: example_env_def IMAGES_FOLDER_def MASKS_FOLDER_def)

lemma example_isfile:
  "isfile example_env p \<longleftrightarrow>
     p = ''data/nuclei_images/n1.png'' \<or> p = ''data/nuclei_images/n2.png'' \<or>
     p = ''data/nuclei_masks/n1.png'' \<or> p = ''data/nuclei_masks/n2.png''"
  by (simp add: example_env_def)

lemma example_sample_images:
  "sample_images example_env = Inr [''data/nuclei_images/n1.png'', ''data/nuclei_images/n2.png'']"
  by (simp add: sample_images_def sorted_files_def regular_files_def and_then_def
      example_listdir example_isfile)
     (simp add: IMAGES_FOLDER_def join_def)

lemma example_sample_masks:
  "sample_masks example_env = Inr [''data/nuclei_masks/n1.png'', ''data/nuclei_masks/n2.png'']"
  by (simp add: sample_masks_def sorted_files_def regular_files_def and_then_def
      example_listdir example_isfile)
     (simp add: MASKS_FOLDER_def join_def)

lemma example_images_loaded:
  "images_loaded example_env = Inr [[[[10], [200]]], [[[30], [40]]]]"
  by (simp add: images_loaded_def example_sample_images and_then_def load_image_def CHANNELS_def
      example_reads example_decodes)

lemma example_masks_loaded:
  "masks_loaded example_env = Inr [[[[1, 0], [0, 1]]], [[[0, 1], [0, 1]]]]"
  by (simp add: masks_loaded_def example_sample_masks and_then_def load_mask_def
      index_last_def channel_def one_hot_2 example_reads example_decodes)

section \<open>Pairing of images and masks\<close>

text \<open>
  Claim C9. The data-loading step pairs training images with label masks by sorted
  filename order. Whenever both lists load, \<open>sample_images\<close> and \<open>sample_masks\<close>
  are the sorted lists of the regular files of the two directories, array element
  \<open>i\<close> of \<open>images_loaded\<close> is the decoded \<open>i\<close>-th sorted image file, array
  element \<open>i\<close> of \<open>masks_loaded\<close> is the encoded \<open>i\<close>-th sorted mask file, and
  training sample \<open>i\<close> is the pair of the two. Since directory entries contain no
  separator, sorting the joined paths is sorting the file names.
\<close>

theorem pairs_follow_sorted_order:
  assumes "images_loaded E = Inr imgs" and "masks_loaded E = Inr msks"
  shows "\<exists>fi fm xs ys.
    listdir E IMAGES_FOLDER = Inr fi \<and> listdir E MASKS_FOLDER = Inr fm \<and>
    xs = sort (map (join IMAGES_FOLDER) (regular_files E IMAGES_FOLDER fi)) \<and>
    ys = sort (map (join MASKS_FOLDER) (regular_files E MASKS_FOLDER fm)) \<and>
    sample_images E = Inr xs \<and> sample_masks E = Inr ys \<and>
    length imgs = length xs \<and> length msks = length ys \<and>
    (\<forall>i<length xs. load_image E (xs ! i) = Inr (imgs ! i)) \<and>
    (\<forall>i<length ys. load_mask E (ys ! i) = Inr (msks ! i)) \<and>
    training_samples E = samples imgs msks \<and>
    (\<forall>s. training_samples E = Inr s \<longrightarrow>
       length s = length xs \<and> length s = length ys \<and>
       (\<forall>i<length s. s ! i = (imgs ! i, msks ! i))) \<and>
    ((\<forall>f\<in>set fi. CHR ''/'' \<notin> set f) \<longrightarrow>
       xs = map ((@) IMAGES_FOLDER) (sort (filter (\<lambda>f. isfile E (IMAGES_FOLDER @ f)) fi))) \<and>
    ((\<forall>f\<in>set fm. CHR ''/'' \<notin> set f) \<longrightarrow>
       ys = map ((@) MASKS_FOLDER) (sort (filter (\<lambda>f. isfile E (MASKS_FOLDER @ f)) fm)))"
proof -
  from assms(1) obtain xs where
    xs: "sample_images E = Inr xs" and ti: "traverse (load_image E) xs = Inr imgs"
    by (auto simp: images_loaded_def and_then_Inr)
  from assms(2) obtain ys where
    ys: "sample_masks E = Inr ys" and tm: "traverse (load_mask E) ys = Inr msks"
    by (auto simp: masks_loaded_def and_then_Inr)
  from xs obtain fi where
    fi: "listdir E IMAGES_FOLDER = Inr fi"
    and xs_eq: "xs = sort (map (join IMAGES_FOLDER) (regular_files E IMAGES_FOLDER fi))"
    by (auto simp: sample_images_def sorted_files_Inr)
  from ys obtain fm where
    fm: "listdir E MASKS_FOLDER = Inr fm"
    and ys_eq: "ys = sort (map (join MASKS_FOLDER) (regular_files E MASKS_FOLDER fm))"
    by (auto simp: sample_masks_def sorted_files_Inr)
  have li: "length imgs = length xs" using ti by (rule traverse_Inr_length)
  have lm: "length msks = length ys" using tm by (rule traverse_Inr_length)
  have ni: "\<forall>i<length xs. load_image E (xs ! i) = Inr (imgs ! i)"
    using traverse_Inr_nth [OF ti] by blast
  have nm: "\<forall>i<length ys. load_mask E (ys ! i) = Inr (msks ! i)"
    using traverse_Inr_nth [OF tm] by blast
  have ts: "training_samples E = samples imgs msks"
    using assms by (simp add: training_samples_def and_then_def)
  have pairs: "\<forall>s. training_samples E = Inr s \<longrightarrow>
       length s = length xs \<and> length s = length ys \<and>
       (\<forall>i<length s. s ! i = (imgs ! i, msks ! i))"
    using li lm by (auto simp: ts samples_Inr)
  have oi: "(\<forall>f\<in>set fi. CHR ''/'' \<notin> set f) \<longrightarrow>
       xs = map ((@) IMAGES_FOLDER) (sort (filter (\<lambda>f. isfile E (IMAGES_FOLDER @ f)) fi))"
    unfolding xs_eq using sorted_paths_by_name [OF _ folders_end_with_separator(1,2)] by blast
  have om: "(\<forall>f\<in>set fm. CHR ''/'' \<notin> set f) \<longrightarrow>
       ys = map ((@) MASKS_FOLDER) (sort (filter (\<lambda>f. isfile E (MASKS_FOLDER @ f)) fm))"
    unfolding ys_eq using sorted_paths_by_name [OF _ folders_end_with_separator(3,4)] by blast
  from fi fm xs_eq ys_eq xs ys li lm ni nm ts pairs oi om show ?thesis by blast
qed

text \<open>
  The small directory tree: the listings come in different orders, and the samples
  pair \<open>n1.png\<close> with \<open>n1.png\<close> and \<open>n2.png\<close> with \<open>n2.png\<close>.
\<close>

theorem pairs_follow_sorted_order_witness:
  "images_loaded example_env = Inr [[[[10], [200]]], [[[30], [40]]]] \<and>
   masks_loaded example_env = Inr [[[[1, 0], [0, 1]]], [[[0, 1], [0, 1]]]] \<and>
   listdir example_env IMAGES_FOLDER = Inr [''n2.png'', ''n1.png'', ''old''] \<and>
   listdir example_env MASKS_FOLDER = Inr [''n1.png'', ''tmp'', ''n2.png''] \<and>
   list_all (\<lambda>f. CHR ''/'' \<notin> set f) [''n2.png'', ''n1.png'', ''old''] \<and>
   list_all (\<lambda>f. CHR ''/'' \<notin> set f) [''n1.png'', ''tmp'', ''n2.png''] \<and>
   [''data/nuclei_images/n1.png'', ''data/nuclei_images/n2.png''] =
     map ((@) IMAGES_FOLDER)
       (sort (filter (\<lambda>f. isfile example_env (IMAGES_FOLDER @ f)) [''n2.png'', ''n1.png'', ''old''])) \<and>
   [''data/nuclei_masks/n1.png'', ''data/nuclei_masks/n2.png''] =
     map ((@) MASKS_FOLDER)
       (sort (filter (\<lambda>f. isfile example_env (MASKS_FOLDER @ f)) [''n1.png'', ''tmp'', ''n2.png''])) \<and>
   load_image example_env ''data/nuclei_images/n1.png'' = Inr [[[10], [200]]] \<and>
   load_mask example_env ''data/nuclei_masks/n1.png'' = Inr [[[1, 0], [0, 1]]] \<and>
   load_image example_env ''data/nuclei_images/n2.png'' = Inr [[[30], [40]]] \<and>
   load_mask example_env ''data/nuclei_masks/n2.png'' = Inr [[[0, 1], [0, 1]]] \<and>
   training_samples example_env =
     Inr [([[[10], [200]]], [[[1, 0], [0, 1]]]), ([[[30], [40]]], [[[0, 1], [0, 1]]])]"
proof -
  have h1: "images_loaded example_env = Inr [[[[10], [200]]], [[[30], [40]]]]"
    by (rule example_images_loaded)
  have h2: "masks_loaded example_env = Inr [[[[1, 0], [0, 1]]], [[[0, 1], [0, 1]]]]"
    by (rule example_masks_loaded)
  from pairs_follow_sorted_order [OF h1 h2] obtain fi fm xs ys where
    fi: "listdir example_env IMAGES_FOLDER = Inr fi"
    and fm: "listdir example_env MASKS_FOLDER = Inr fm"
    and xs: "sample_images example_env = Inr xs" and ys: "sample_masks example_env = Inr ys"
    and ni: "\<forall>i<length xs. load_image example_env (xs ! i) =
        Inr ([[[[10], [200]]], [[[30], [40]]]] ! i)"
    and nm: "\<forall>i<length ys. load_mask example_env (ys ! i) =
        Inr ([[[[1, 0], [0, 1]]], [[[0, 1], [0, 1]]]] ! i)"
    and ts: "training_samples example_env =
        samples [[[[10], [200]]], [[[30], [40]]]] [[[[1, 0], [0, 1]]], [[[0, 1], [0, 1]]]]"
    and oi: "(\<forall>f\<in>set fi. CHR ''/'' \<notin> set f) \<longrightarrow>
       xs = map ((@) IMAGES_FOLDER)
              (sort (filter (\<lambda>f. isfile example_env (IMAGES_FOLDER @ f)) fi))"
    and om: "(\<forall>f\<in>set fm. CHR ''/'' \<notin> set f) \<longrightarrow>
       ys = map ((@) MASKS_FOLDER)
              (sort (filter (\<lambda>f. isfile example_env (MASKS_FOLDER @ f)) fm))"
    by blast
  from fi have fi_eq: "fi = [''n2.png'', ''n1.png'', ''old'']"
    by (simp add: example_listdir)
  from fm have fm_eq: "fm = [''n1.png'', ''tmp'', ''n2.png'']"
    by (simp add: example_listdir)
  from xs have xs_eq: "xs = [''data/nuclei_images/n1.png'', ''data/nuclei_images/n2.png'']"
    by (simp add: example_sample_images)
  from ys have ys_eq: "ys = [''data/nuclei_masks/n1.png'', ''data/nuclei_masks/n2.png'']"
    by (simp add: example_sample_masks)
  have pi: "\<forall>f\<in>set [''n2.png'', ''n1.png'', ''old'']. CHR ''/'' \<notin> set f" by simp
  have pm: "\<forall>f\<in>set [''n1.png'', ''tmp'', ''n2.png'']. CHR ''/'' \<notin> set f" by simp
  have qi: "list_all (\<lambda>f. CHR ''/'' \<notin> set f) [''n2.png'', ''n1.png'', ''old'']" by simp
  have qm: "list_all (\<lambda>f. CHR ''/'' \<notin> set f) [''n1.png'', ''tmp'', ''n2.png'']" by simp
  have a1: "listdir example_env IMAGES_FOLDER = Inr [''n2.png'', ''n1.png'', ''old'']"
    using fi by (simp only: fi_eq)
  have a2: "listdir example_env MASKS_FOLDER = Inr [''n1.png'', ''tmp'', ''n2.png'']"
    using fm by (simp only: fm_eq)
  have a3: "[''data/nuclei_images/n1.png'', ''data/nuclei_images/n2.png''] =
     map ((@) IMAGES_FOLDER)
       (sort (filter (\<lambda>f. isfile example_env (IMAGES_FOLDER @ f)) [''n2.png'', ''n1.png'', ''old'']))"
    using oi pi unfolding fi_eq xs_eq by (rule mp)
  have a4: "[''data/nuclei_masks/n1.png'', ''data/nuclei_masks/n2.png''] =
     map ((@) MASKS_FOLDER)
       (sort (filter (\<lambda>f. isfile example_env (MASKS_FOLDER @ f)) [''n1.png'', ''tmp'', ''n2.png'']))"
    using om pm unfolding fm_eq ys_eq by (rule mp)
  have b1: "load_image example_env ''data/nuclei_images/n1.png'' = Inr [[[10], [200]]]"
    using ni [rule_format, of 0] by (simp add: xs_eq)
  have b2: "load_mask example_env ''data/nuclei_masks/n1.png'' = Inr [[[1, 0], [0, 1]]]"
    using nm [rule_format, of 0] by (simp add: ys_eq)
  have b3: "load_image example_env ''data/nuclei_images/n2.png'' = Inr [[[30], [40]]]"
    using ni [rule_format, of 1] by (simp add: xs_eq)
  have b4: "load_mask example_env ''data/nuclei_masks/n2.png'' = Inr [[[0, 1], [0, 1]]]"
    using nm [rule_format, of 1] by (simp add: ys_eq)
  have t: "training_samples example_env =
     Inr [([[[10], [200]]], [[[1, 0], [0, 1]]]), ([[[30], [40]]], [[[0, 1], [0, 1]]])]"
    by (simp add: ts samples_def)
  show ?thesis
    by (intro conjI) (rule h1 h2 a1 a2 qi qm a3 a4 b1 b2 b3 b4 t)+
qed

section \<open>Targets, output channels and classes\<close>

text \<open>
  Claim C10. Every loaded training target is the one-hot encoding, with depth 2, of
  the mask pixel value: value 0 gives \<open>[1.0, 0.0]\<close> and value 1 gives
  \<open>[0.0, 1.0]\<close>. So every target pixel has exactly 2 channels, which is the output
  channel count of the model (its last convolution has 2 filters) and the length of
  the class list of the metadata.
\<close>

theorem targets_one_hot_depth_2:
  assumes "masks_loaded E = Inr ts"
  shows "one_hot 0 2 = [1, 0] \<and> one_hot 1 2 = [0, 1] \<and>
    output_channels model = Some 2 \<and> length (classes model_metadata) = 2 \<and>
    (\<exists>ps. sample_masks E = Inr ps \<and> length ts = length ps \<and>
      (\<forall>i<length ps. \<exists>b d.
         read_file E (ps ! i) = Inr b \<and> decode_image E 1 b = Inr d \<and>
         length (ts ! i) = length d \<and>
         (\<forall>r<length d. length (ts ! i ! r) = length (d ! r) \<and>
            (\<forall>c<length (d ! r).
               ts ! i ! r ! c = one_hot (d ! r ! c ! 0) 2 \<and>
               Some (length (ts ! i ! r ! c)) = output_channels model \<and>
               length (ts ! i ! r ! c) = length (classes model_metadata)))))"
proof -
  from assms obtain ps where
    ps: "sample_masks E = Inr ps" and tr: "traverse (load_mask E) ps = Inr ts"
    by (auto simp: masks_loaded_def and_then_Inr)
  have len: "length ts = length ps"
    using tr by (rule traverse_Inr_length)
  have each: "\<exists>b d.
         read_file E (ps ! i) = Inr b \<and> decode_image E 1 b = Inr d \<and>
         length (ts ! i) = length d \<and>
         (\<forall>r<length d. length (ts ! i ! r) = length (d ! r) \<and>
            (\<forall>c<length (d ! r).
               ts ! i ! r ! c = one_hot (d ! r ! c ! 0) 2 \<and>
               Some (length (ts ! i ! r ! c)) = output_channels model \<and>
               length (ts ! i ! r ! c) = length (classes model_metadata)))"
    if i: "i < length ps" for i
  proof -
    from load_mask_Inr [OF traverse_Inr_nth [OF tr i]] obtain b d where
      b: "read_file E (ps ! i) = Inr b" and d: "decode_image E 1 b = Inr d"
      and l: "length (ts ! i) = length d"
      and px: "\<forall>r<length d. length (ts ! i ! r) = length (d ! r) \<and>
         (\<forall>c<length (d ! r). d ! r ! c \<noteq> [] \<and> ts ! i ! r ! c = one_hot (d ! r ! c ! 0) 2)"
      by blast
    have "\<forall>r<length d. length (ts ! i ! r) = length (d ! r) \<and>
            (\<forall>c<length (d ! r).
               ts ! i ! r ! c = one_hot (d ! r ! c ! 0) 2 \<and>
               Some (length (ts ! i ! r ! c)) = output_channels model \<and>
               length (ts ! i ! r ! c) = length (classes model_metadata))"
      using px by (simp add: output_channels_model length_classes one_hot_2)
    with b d l show ?thesis by blast
  qed
  have "one_hot 0 2 = [1, 0]" "one_hot 1 2 = [0, 1]"
    by (simp_all add: one_hot_2)
  with ps len each output_channels_model length_classes show ?thesis by blast
qed


text \<open>The masks of the small directory tree.\<close>

theorem targets_one_hot_depth_2_witness:
  "masks_loaded example_env = Inr [[[[1, 0], [0, 1]]], [[[0, 1], [0, 1]]]] \<and>
   sample_masks example_env = Inr [''data/nuclei_masks/n1.png'', ''data/nuclei_masks/n2.png''] \<and>
   read_file example_env ''data/nuclei_masks/n1.png'' = Inr ''m1'' \<and>
   decode_image example_env 1 ''m1'' = Inr [[[0], [1]]] \<and>
   [[[[1, 0], [0, 1]]], [[[0, 1], [0, 1]]]] ! 0 ! 0 ! 1 = one_hot ([[[0], [1]]] ! 0 ! 1 ! 0) 2 \<and>
   Some (length ([[[[1, 0], [0, 1 :: real]]], [[[0, 1], [0, 1]]]] ! 0 ! 0 ! 1)) =
     output_channels model \<and>
   length ([[[[1, 0], [0, 1 :: real]]], [[[0, 1], [0, 1]]]] ! 0 ! 0 ! 1) =
     length (classes model_metadata)"
proof -
  have h: "masks_loaded example_env = Inr [[[[1, 0], [0, 1]]], [[[0, 1], [0, 1]]]]"
    by (rule example_masks_loaded)
  from targets_one_hot_depth_2 [OF h] obtain ps where
    ps: "sample_masks example_env = Inr ps"
    and each: "\<forall>i<length ps. \<exists>b d.
         read_file example_env (ps ! i) = Inr b \<and> decode_image example_env 1 b = Inr d \<and>
         length ([[[[1, 0], [0, 1 :: real]]], [[[0, 1], [0, 1]]]] ! i) = length d \<and>
         (\<forall>r<length d.
            length ([[[[1, 0], [0, 1 :: real]]], [[[0, 1], [0, 1]]]] ! i ! r) = length (d ! r) \<and>
            (\<forall>c<length (d ! r).
               [[[[1, 0], [0, 1]]], [[[0, 1], [0, 1]]]] ! i ! r ! c = one_hot (d ! r ! c ! 0) 2 \<and>
               Some (length ([[[[1, 0], [0, 1 :: real]]], [[[0, 1], [0, 1]]]] ! i ! r ! c)) =
                 output_channels model \<and>
               length ([[[[1, 0], [0, 1 :: real]]], [[[0, 1], [0, 1]]]] ! i ! r ! c) =
                 length (classes model_metadata)))"
    by blast
  from ps have ps_eq: "ps = [''data/nuclei_masks/n1.png'', ''data/nuclei_masks/n2.png'']"
    by (simp add: example_sample_masks)
  have "0 < length ps" by (simp add: ps_eq)
  with each obtain b d where
    b: "read_file example_env (ps ! 0) = Inr b" and d: "decode_image example_env 1 b = Inr d"
    and px: "\<forall>r<length d.
            length ([[[[1, 0], [0, 1 :: real]]], [[[0, 1], [0, 1]]]] ! 0 ! r) = length (d ! r) \<and>
            (\<forall>c<length (d ! r).
               [[[[1, 0], [0, 1]]], [[[0, 1], [0, 1]]]] ! 0 ! r ! c = one_hot (d ! r ! c ! 0) 2 \<and>
               Some (length ([[[[1, 0], [0, 1 :: real]]], [[[0, 1], [0, 1]]]] ! 0 ! r ! c)) =
                 output_channels model \<and>
               length ([[[[1, 0], [0, 1 :: real]]], [[[0, 1], [0, 1]]]] ! 0 ! r ! c) =
                 length (classes model_metadata))"
    by blast
  from b have b_eq: "b = ''m1''" by (simp add: ps_eq example_reads)
  from d have d_eq: "d = [[[0], [1]]]" by (simp add: b_eq example_decodes)
  have c0: "sample_masks example_env =
      Inr [''data/nuclei_masks/n1.png'', ''data/nuclei_masks/n2.png'']"
    using ps by (simp only: ps_eq)
  have c1: "read_file example_env ''data/nuclei_masks/n1.png'' = Inr ''m1''"
    using b by (simp add: ps_eq b_eq)
  have c2: "decode_image example_env 1 ''m1'' = Inr [[[0], [1]]]"
    using d by (simp only: b_eq d_eq)
  have r: "0 < length d" and c: "1 < length (d ! 0)"
    by (simp_all add: d_eq)
  from px r have "\<forall>c<length (d ! 0).
      [[[[1, 0], [0, 1]]], [[[0, 1], [0, 1]]]] ! 0 ! 0 ! c = one_hot (d ! 0 ! c ! 0) 2 \<and>
      Some (length ([[[[1, 0], [0, 1 :: real]]], [[[0, 1], [0, 1]]]] ! 0 ! 0 ! c)) =
        output_channels model \<and>
      length ([[[[1, 0], [0, 1 :: real]]], [[[0, 1], [0, 1]]]] ! 0 ! 0 ! c) =
        length (classes model_metadata)"
    by blast
  with c have c3:
    "[[[[1, 0], [0, 1]]], [[[0, 1], [0, 1]]]] ! 0 ! 0 ! 1 = one_hot (d ! 0 ! 1 ! 0) 2 \<and>
     Some (length ([[[[1, 0], [0, 1 :: real]]], [[[0, 1], [0, 1]]]] ! 0 ! 0 ! 1)) =
       output_channels model \<and>
     length ([[[[1, 0], [0, 1 :: real]]], [[[0, 1], [0, 1]]]] ! 0 ! 0 ! 1) =
       length (classes model_metadata)"
    by blast
  note c4 = c3 [unfolded d_eq]
  show ?thesis
    by (intro conjI)
      (rule h c0 c1 c2 c4 [THEN conjunct1] c4 [THEN conjunct2, THEN conjunct1]
        c4 [THEN conjunct2, THEN conjunct2])+
qed

end
